theory Spec2Isabelle
  imports Complex_Main
begin

section \<open>Values shared by both viewers\<close>

text \<open>
  The repository holds two viewers: \<^verbatim>\<open>MainPage\<close>, the component that \<^verbatim>\<open>main.tsx\<close>
  mounts, and \<^verbatim>\<open>App\<close> with its child \<^verbatim>\<open>PdfViewer\<close>.  Each handler is a function from
  the component's state to its completion and the state it leaves, given what each awaited
  promise does.  A handler is started by an event and runs to its first \<^verbatim>\<open>await\<close>; it
  goes on when the promise settles, from the state of that moment, other handlers having
  run in between.  The handlers of the main page are given twice: whole, with the outcome
  of every promise read from the environment (\<open>loadPdf\<close>, \<open>goToPage\<close>, ...), and
  in the pieces between two \<^verbatim>\<open>await\<close>s (\<open>start\<close>, \<open>resume\<close>), from which
  \<open>exec\<close> builds every interleaving.  Lemma \<open>perform_at_once\<close> shows that the whole
  handler is its pieces with every promise answered at once.  A state setter's value is in
  the state at once: between two events React has rendered.
\<close>

text \<open>
  A thrown JavaScript value.  The handlers only ever look at it through
  \<^verbatim>\<open>err instanceof Error ? err.message : fallback\<close>, so a thrown value is either an
  \<^verbatim>\<open>Error\<close> carrying its message or something else.
\<close>

datatype js_error = JsError string | Thrown_other

fun message_or :: "js_error \<Rightarrow> string \<Rightarrow> string" where
  "message_or (JsError m) fallback = m"
| "message_or Thrown_other fallback = fallback"

text \<open>
  What an awaited promise does: it resolves with a value, rejects with a thrown value, or
  never settles.  An \<^verbatim>\<open>async\<close> function accordingly returns, throws, or stays suspended
  at one of its \<^verbatim>\<open>await\<close>s for ever.
\<close>

datatype 'a promise = Resolves 'a | Rejects js_error | Pending

datatype completion = Returned | Threw js_error | Suspended

text \<open>
  The handles of the rendering library are opaque to the viewer; the only property it reads
  is \<^verbatim>\<open>numPages\<close> of a document.  Lengths are JavaScript numbers, idealised as reals;
  page numbers are integers.  The \<^verbatim>\<open>width\<close> and \<^verbatim>\<open>height\<close> of a canvas are
  attributes of type \<^verbatim>\<open>unsigned long\<close>, hence integers; its style lengths stay numbers.
\<close>

record pdf_document =
  doc_ref :: nat
  numPages :: int

datatype pdf_page = PageRef nat

record viewport =
  vp_width :: real
  vp_height :: real

record canvas =
  canvas_width :: int
  canvas_height :: int
  style_width :: "real option"
  style_height :: "real option"

text \<open>The two ways \<^verbatim>\<open>loadPdf\<close> calls \<^verbatim>\<open>pdfjsLib.getDocument\<close>.\<close>

datatype doc_source =
    Url_params string string bool
  | Path_arg string

record render_params =
  canvasContext :: "canvas option"
  rp_viewport :: viewport
  transform :: "real list option"

text \<open>
  The calls leaving the component, in the order they are made; \<open>Call_renderPage\<close> marks an
  invocation of the component's own \<^verbatim>\<open>renderPage\<close>.
\<close>

datatype call =
    Call_getDocument doc_source
  | Call_renderPage int
  | Call_getPage pdf_document int
  | Call_getViewport pdf_page real
  | Call_render pdf_page render_params

text \<open>What a browser's \<^verbatim>\<open>input type=file\<close> does after \<^verbatim>\<open>click()\<close>: its
  \<^verbatim>\<open>onchange\<close> never fires, or it fires with the object URL of the first chosen file
  (\<open>None\<close>: no file).\<close>

datatype file_input = No_change | Changed "string option"

text \<open>
  Everything outside the component: the rendering library, the canvas API, the window and the
  host bridge.  The component is verified for every such environment.
\<close>

record env =
  getDocument :: "doc_source \<Rightarrow> pdf_document promise"
  getPage :: "pdf_document \<Rightarrow> int \<Rightarrow> pdf_page promise"
  getViewport :: "pdf_page \<Rightarrow> real \<Rightarrow> viewport"
  render :: "pdf_page \<Rightarrow> render_params \<Rightarrow> unit promise"
  getContext2d :: bool
  devicePixelRatio :: "real option"
  isElectron :: bool
  hasOpenPdf :: bool
  openPdf :: "string option promise"
  fileInput :: file_input
  typeError_message :: string

section \<open>MainPage.tsx\<close>

text \<open>
  The component's \<^verbatim>\<open>useState\<close> cells and its two refs.  \<open>viewerContainer\<close> is
  \<^verbatim>\<open>viewerContainerRef.current\<close>: \<open>None\<close> while the ref is null, otherwise the canvases
  that \<^verbatim>\<open>renderPage\<close> has put into the element.  \<open>calls\<close> is the log of outgoing calls.
\<close>

record main_state =
  error :: "string option"
  isLoading :: bool
  title :: string
  currentPage :: int
  totalPages :: int
  isDragging :: bool
  pdfInstance :: "pdf_document option"
  viewerContainer :: "canvas list option"
  calls :: "call list"

definition initial_state :: "canvas list option \<Rightarrow> main_state" where
  "initial_state c =
     \<lparr>error = None, isLoading = False, title = ''Elegant PDF Viewer'', currentPage = 1,
      totalPages = 0, isDragging = False, pdfInstance = None, viewerContainer = c,
      calls = []\<rparr>"

definition log_call :: "call \<Rightarrow> main_state \<Rightarrow> main_state" where
  "log_call c s = s\<lparr>calls := calls s @ [c]\<rparr>"

text \<open>\<^verbatim>\<open>window.devicePixelRatio || 1\<close>: undefined and 0 are falsy.\<close>

definition pixel_ratio :: "env \<Rightarrow> real" where
  "pixel_ratio e = (case devicePixelRatio e of None \<Rightarrow> 1 | Some r \<Rightarrow> if r = 0 then 1 else r)"

text \<open>
  An assignment \<^verbatim>\<open>canvas.width = x\<close> of a number: the number is converted to
  \<^verbatim>\<open>unsigned long\<close> (the fraction is dropped, the result taken modulo \<open>2^32\<close>), and
  the attribute, which reflects a content attribute, keeps the value when it is at most
  \<open>2^31 - 1\<close> and falls back to its default otherwise (300 for the width, 150 for the
  height).
\<close>

definition to_unsigned_long :: "real \<Rightarrow> int" where
  "to_unsigned_long x = (if x < 0 then - \<lfloor>- x\<rfloor> else \<lfloor>x\<rfloor>) mod 4294967296"

definition canvas_size :: "int \<Rightarrow> real \<Rightarrow> int" where
  "canvas_size dflt x = (let n = to_unsigned_long x in if n \<le> 2147483647 then n else dflt)"

definition page_canvas :: "real \<Rightarrow> viewport \<Rightarrow> canvas" where
  "page_canvas dpr vp =
     \<lparr>canvas_width = canvas_size 300 (vp_width vp * dpr),
      canvas_height = canvas_size 150 (vp_height vp * dpr),
      style_width = Some (vp_width vp), style_height = Some (vp_height vp)\<rparr>"

definition page_render_params :: "real \<Rightarrow> viewport \<Rightarrow> render_params" where
  "page_render_params dpr vp =
     \<lparr>canvasContext = Some (page_canvas dpr vp), rp_viewport = vp,
      transform = Some [dpr, 0, 0, dpr, 0, 0]\<rparr>"

text \<open>
  \<^verbatim>\<open>renderPage(pageNum, container)\<close>, lines 28-69.  Its callers pass
  \<^verbatim>\<open>viewerContainerRef.current\<close> after checking it, so the container it writes is the
  \<open>viewerContainer\<close> of the state.  The \<^verbatim>\<open>catch\<close> logs and rethrows.
\<close>

definition renderPage :: "env \<Rightarrow> int \<Rightarrow> main_state \<Rightarrow> completion \<times> main_state" where
  "renderPage e pageNum s0 =
     (let s = log_call (Call_renderPage pageNum) s0 in
      case pdfInstance s of
        None \<Rightarrow> (Returned, s)
      | Some d \<Rightarrow>
          (let s1 = log_call (Call_getPage d pageNum) s in
           case getPage e d pageNum of
             Pending \<Rightarrow> (Suspended, s1)
           | Rejects err \<Rightarrow> (Threw err, s1)
           | Resolves page \<Rightarrow>
               (let vp = getViewport e page 1.5;
                    s2 = log_call (Call_getViewport page 1.5) s1
                in if \<not> getContext2d e
                   then (Threw (JsError ''Could not get canvas context''), s2)
                   else
                     (let dpr = pixel_ratio e;
                          s3 = s2\<lparr>viewerContainer := Some [page_canvas dpr vp]\<rparr>;
                          ps = page_render_params dpr vp;
                          s4 = log_call (Call_render page ps) s3
                      in case render e page ps of
                           Pending \<Rightarrow> (Suspended, s4)
                         | Rejects err \<Rightarrow> (Threw err, s4)
                         | Resolves u \<Rightarrow> (Returned, s4)))))"

text \<open>\<^verbatim>\<open>s.startsWith(p)\<close>.\<close>

definition startsWith :: "string \<Rightarrow> string \<Rightarrow> bool" where
  "startsWith s p = (take (length p) s = p)"

text \<open>\<^verbatim>\<open>filePathOrUrl.split(/[\\/]/).pop() || 'PDF Document'\<close>: the part after the last
  slash or backslash, and the default when that part is empty.\<close>

definition is_separator :: "char \<Rightarrow> bool" where
  "is_separator c = (c = CHR ''/'' \<or> c = CHR 0x5C)"

definition fileName_of :: "string \<Rightarrow> string" where
  "fileName_of p =
     (let seg = rev (takeWhile (\<lambda>c. \<not> is_separator c) (rev p))
      in if seg = [] then ''PDF Document'' else seg)"

text \<open>The argument \<^verbatim>\<open>loadPdf\<close> hands to \<^verbatim>\<open>getDocument\<close> (lines 76-93).\<close>

definition document_source :: "string \<Rightarrow> doc_source" where
  "document_source filePathOrUrl =
     (let isUrl = (startsWith filePathOrUrl ''blob:'' \<or> startsWith filePathOrUrl ''http''
                    \<or> startsWith filePathOrUrl ''file:'')
      in if isUrl then Url_params filePathOrUrl ''node_modules/pdfjs-dist/cmaps/'' True
         else Path_arg filePathOrUrl)"

text \<open>
  \<^verbatim>\<open>loadPdf(filePathOrUrl)\<close>, lines 71-113.  The argument is \<open>None\<close> when the caller
  passes \<^verbatim>\<open>undefined\<close> (a dropped file without a \<^verbatim>\<open>path\<close>); \<^verbatim>\<open>startsWith\<close> then
  throws a TypeError inside the \<^verbatim>\<open>try\<close>.  The \<^verbatim>\<open>finally\<close> runs on every exit that is
  reached; a promise that never settles leaves the function suspended before it.
\<close>

definition load_failed :: "js_error \<Rightarrow> main_state \<Rightarrow> main_state" where
  "load_failed err s =
     s\<lparr>error := Some (''Error loading PDF: '' @ message_or err ''Unknown error''),
       isLoading := False\<rparr>"

definition loadPdf :: "env \<Rightarrow> string option \<Rightarrow> main_state \<Rightarrow> completion \<times> main_state" where
  "loadPdf e arg s =
     (let s1 = s\<lparr>isLoading := True, error := None\<rparr> in
      case arg of
        None \<Rightarrow> (Returned, load_failed (JsError (typeError_message e)) s1)
      | Some filePathOrUrl \<Rightarrow>
          (let src = document_source filePathOrUrl;
               s2 = log_call (Call_getDocument src) s1
           in case getDocument e src of
                Pending \<Rightarrow> (Suspended, s2)
              | Rejects err \<Rightarrow> (Returned, load_failed err s2)
              | Resolves d \<Rightarrow>
                  (let s3 = s2\<lparr>pdfInstance := Some d, totalPages := numPages d,
                                title := fileName_of filePathOrUrl\<rparr>;
                       r = (if viewerContainer s3 \<noteq> None then renderPage e 1 s3
                            else (Returned, s3))
                   in case fst r of
                        Suspended \<Rightarrow> (Suspended, snd r)
                      | Threw err \<Rightarrow> (Returned, load_failed err (snd r))
                      | Returned \<Rightarrow> (Returned, (snd r)\<lparr>isLoading := False\<rparr>))))"

text \<open>
  \<^verbatim>\<open>handleOpenPdf\<close>, lines 119-152.  Outside Electron the handler returns a promise that
  is resolved only from the input's \<^verbatim>\<open>onchange\<close>.  \<^verbatim>\<open>if (filePath)\<close> is false for
  \<^verbatim>\<open>null\<close> and for the empty string.  \<^verbatim>\<open>loadPdf\<close> never throws (lemma
  \<open>loadPdf_complete\<close>), so the \<^verbatim>\<open>catch\<close> is reached from the dialog only.
\<close>

definition handleOpenPdf :: "env \<Rightarrow> main_state \<Rightarrow> completion \<times> main_state" where
  "handleOpenPdf e s =
     (if \<not> isElectron e \<or> \<not> hasOpenPdf e then
        (case fileInput e of
           No_change \<Rightarrow> (Suspended, s)
         | Changed None \<Rightarrow> (Returned, s)
         | Changed (Some fileUrl) \<Rightarrow> loadPdf e (Some fileUrl) (s\<lparr>currentPage := 1\<rparr>))
      else
        (case openPdf e of
           Pending \<Rightarrow> (Suspended, s)
         | Rejects err \<Rightarrow>
             (Returned, s\<lparr>error := Some (''Error: '' @ message_or err ''Failed to open PDF'')\<rparr>)
         | Resolves None \<Rightarrow> (Returned, s)
         | Resolves (Some filePath) \<Rightarrow>
             (if filePath = [] then (Returned, s)
              else loadPdf e (Some filePath) (s\<lparr>currentPage := 1\<rparr>))))"

text \<open>\<^verbatim>\<open>goToPage(pageNum)\<close>, lines 154-169.\<close>

definition goToPage :: "env \<Rightarrow> int \<Rightarrow> main_state \<Rightarrow> completion \<times> main_state" where
  "goToPage e pageNum s =
     (if pdfInstance s = None \<or> pageNum < 1 \<or> pageNum > totalPages s then (Returned, s)
      else
        (let s1 = s\<lparr>isLoading := True, currentPage := pageNum\<rparr>;
             r = (if viewerContainer s1 \<noteq> None then renderPage e pageNum s1
                  else (Returned, s1))
         in case fst r of
              Suspended \<Rightarrow> (Suspended, snd r)
            | Threw err \<Rightarrow>
                (Returned,
                 (snd r)\<lparr>error := Some (''Error navigating to page: ''
                                           @ message_or err ''Unknown error''),
                          isLoading := False\<rparr>)
            | Returned \<Rightarrow> (Returned, (snd r)\<lparr>isLoading := False\<rparr>)))"

text \<open>
  \<^verbatim>\<open>handlePageInput\<close>, lines 171-176.  \<open>parsed\<close> is the value of
  \<^verbatim>\<open>parseInt(e.target.value, 10)\<close>, a function of the language: \<open>None\<close> when it is
  NaN, otherwise the integer it returns.  (For a digit string too long for a number it
  returns an infinity, which fails the guard of \<^verbatim>\<open>goToPage\<close> as every integer above
  \<open>totalPages\<close> or below 1 does.)
\<close>

definition handlePageInput :: "env \<Rightarrow> int option \<Rightarrow> main_state \<Rightarrow> completion \<times> main_state" where
  "handlePageInput e parsed s =
     (case parsed of None \<Rightarrow> (Returned, s) | Some pageNum \<Rightarrow> goToPage e pageNum s)"

text \<open>\<^verbatim>\<open>handleDragOver\<close>, \<^verbatim>\<open>handleDragLeave\<close> and \<^verbatim>\<open>handleDrop\<close>, lines 184-210.
  A dropped file has a MIME type and, under Electron, a path.\<close>

record dropped_file =
  file_type :: string
  file_path :: "string option"

definition handleDragOver :: "main_state \<Rightarrow> main_state" where
  "handleDragOver s = s\<lparr>isDragging := True\<rparr>"

definition handleDragLeave :: "main_state \<Rightarrow> main_state" where
  "handleDragLeave s = s\<lparr>isDragging := False\<rparr>"

definition handleDrop :: "env \<Rightarrow> dropped_file list \<Rightarrow> main_state \<Rightarrow> completion \<times> main_state" where
  "handleDrop e files s =
     (let s1 = s\<lparr>isDragging := False\<rparr> in
      case files of
        [] \<Rightarrow> (Returned, s1)
      | file # rest \<Rightarrow>
          if file_type file = ''application/pdf''
          then loadPdf e (file_path file) (s1\<lparr>currentPage := 1\<rparr>)
          else (Returned, s1\<lparr>error := Some ''Please drop a valid PDF file''\<rparr>))"

text \<open>
  What the user sees, read off the JSX (lines 229-250 and 295-302): the error banner is shown
  when \<^verbatim>\<open>error\<close> is truthy, that is a non-empty string; the spinner when
  \<^verbatim>\<open>isLoading\<close>.  The navigation controls, from which \<^verbatim>\<open>goToPage\<close> is called, exist
  only when \<^verbatim>\<open>totalPages > 0\<close> and are disabled while loading (lines 252-287).
\<close>

definition error_shown :: "main_state \<Rightarrow> bool" where
  "error_shown s = (case error s of None \<Rightarrow> False | Some m \<Rightarrow> m \<noteq> [])"

text \<open>The guard of \<^verbatim>\<open>goToPage\<close> (line 155), true when the call is let through.\<close>

definition goToPage_admits :: "int \<Rightarrow> main_state \<Rightarrow> bool" where
  "goToPage_admits pageNum s =
     (\<not> (pdfInstance s = None \<or> pageNum < 1 \<or> pageNum > totalPages s))"

text \<open>The calls an operation has added to the log of the state it started from.\<close>

definition new_calls :: "main_state \<Rightarrow> main_state \<Rightarrow> call list" where
  "new_calls s s' = drop (length (calls s)) (calls s')"

text \<open>
  How \<^verbatim>\<open>renderPage\<close> ends for page \<open>n\<close> of a loaded document \<open>d\<close>, as a function of
  the environment alone (lemma \<open>renderPage_outcome\<close> below), and the file that
  \<^verbatim>\<open>handleOpenPdf\<close> passes to \<^verbatim>\<open>loadPdf\<close>, if any (lemma \<open>handleOpenPdf_chosen\<close>).
  Both only serve to state hypotheses.
\<close>

definition page_render_outcome :: "env \<Rightarrow> pdf_document \<Rightarrow> int \<Rightarrow> completion" where
  "page_render_outcome e d n =
     (case getPage e d n of
        Pending \<Rightarrow> Suspended
      | Rejects err \<Rightarrow> Threw err
      | Resolves pg \<Rightarrow>
          if \<not> getContext2d e then Threw (JsError ''Could not get canvas context'')
          else
            (case render e pg (page_render_params (pixel_ratio e) (getViewport e pg 1.5)) of
               Pending \<Rightarrow> Suspended
             | Rejects err \<Rightarrow> Threw err
             | Resolves u \<Rightarrow> Returned))"

definition chosen_file :: "env \<Rightarrow> string option" where
  "chosen_file e =
     (if \<not> isElectron e \<or> \<not> hasOpenPdf e then
        (case fileInput e of No_change \<Rightarrow> None | Changed picked \<Rightarrow> picked)
      else
        (case openPdf e of
           Pending \<Rightarrow> None
         | Rejects err \<Rightarrow> None
         | Resolves None \<Rightarrow> None
         | Resolves (Some filePath) \<Rightarrow> if filePath = [] then None else Some filePath))"

subsection \<open>Sequences of user operations\<close>

text \<open>
  The handlers the user can reach.  \<open>perform\<close> runs one of them whole, in an
  environment of its own (the dialog outcome, the library's answers), and \<open>run\<close> a
  sequence of them in turn: these are the executions in which no two handlers overlap, each
  promise being settled before the next operation starts, or never.  Executions in which
  handlers overlap are those of \<open>exec\<close> below.
\<close>

datatype operation =
    Open_file
  | Go_to_page int
  | Drop_files "dropped_file list"
  | Page_input "int option"
  | Drag_over
  | Drag_leave

fun perform :: "env \<Rightarrow> operation \<Rightarrow> main_state \<Rightarrow> main_state" where
  "perform e Open_file s = snd (handleOpenPdf e s)"
| "perform e (Go_to_page n) s = snd (goToPage e n s)"
| "perform e (Drop_files fs) s = snd (handleDrop e fs s)"
| "perform e (Page_input v) s = snd (handlePageInput e v s)"
| "perform e Drag_over s = handleDragOver s"
| "perform e Drag_leave s = handleDragLeave s"

fun run :: "(env \<times> operation) list \<Rightarrow> main_state \<Rightarrow> main_state" where
  "run [] s = s"
| "run (step # steps) s = run steps (perform (fst step) (snd step) s)"

text \<open>An operation completes when its handler is not left suspended at an \<^verbatim>\<open>await\<close>.\<close>

fun completes :: "env \<Rightarrow> operation \<Rightarrow> main_state \<Rightarrow> bool" where
  "completes e Open_file s = (fst (handleOpenPdf e s) \<noteq> Suspended)"
| "completes e (Go_to_page n) s = (fst (goToPage e n s) \<noteq> Suspended)"
| "completes e (Drop_files fs) s = (fst (handleDrop e fs s) \<noteq> Suspended)"
| "completes e (Page_input v) s = (fst (handlePageInput e v s) \<noteq> Suspended)"
| "completes e Drag_over s = True"
| "completes e Drag_leave s = True"

fun all_complete :: "(env \<times> operation) list \<Rightarrow> main_state \<Rightarrow> bool" where
  "all_complete [] s = True"
| "all_complete (step # steps) s =
     (completes (fst step) (snd step) s \<and> all_complete steps (perform (fst step) (snd step) s))"

text \<open>The invariant of the navigation state.\<close>

definition nav_invariant :: "main_state \<Rightarrow> bool" where
  "nav_invariant s = (totalPages s > 0 \<longrightarrow> 1 \<le> currentPage s \<and> currentPage s \<le> totalPages s)"




subsection \<open>Handlers that overlap\<close>

text \<open>
  Where a handler can be waiting: for the file dialog (line 143), for the file input's
  \<^verbatim>\<open>onchange\<close> (line 129), in \<^verbatim>\<open>loadPdf\<close> for the document (line 95), in
  \<^verbatim>\<open>renderPage\<close> for the page (line 32) or for the render task (lines 59-63).
  \<^verbatim>\<open>renderPage\<close> is called from \<^verbatim>\<open>loadPdf\<close> and from \<^verbatim>\<open>goToPage\<close>, whose
  \<^verbatim>\<open>catch\<close> and \<^verbatim>\<open>finally\<close> run when it ends.
\<close>

datatype caller = In_loadPdf | In_goToPage

datatype task =
    At_dialog
  | At_file_input
  | At_getDocument string
  | At_getPage caller pdf_document int
  | At_render caller pdf_page render_params

datatype 'a settled = Fulfilled 'a | Rejected js_error

datatype settlement =
    Dialog_settled "string option settled"
  | Input_changed "string option"
  | Document_settled "pdf_document settled"
  | Page_settled "pdf_page settled"
  | Render_settled "unit settled"

datatype progress = Done | Waiting task

text \<open>The end of \<^verbatim>\<open>loadPdf\<close> (lines 107-112) and of \<^verbatim>\<open>goToPage\<close> (lines 163-168),
  after a throw or without one.\<close>

definition leave :: "caller \<Rightarrow> js_error option \<Rightarrow> main_state \<Rightarrow> main_state" where
  "leave c thrown s =
     (case thrown of
        None \<Rightarrow> s\<lparr>isLoading := False\<rparr>
      | Some err \<Rightarrow>
          (case c of
             In_loadPdf \<Rightarrow> load_failed err s
           | In_goToPage \<Rightarrow>
               s\<lparr>error := Some (''Error navigating to page: ''
                                  @ message_or err ''Unknown error''),
                 isLoading := False\<rparr>))"

text \<open>\<^verbatim>\<open>renderPage\<close> up to line 32, and from line 33 to the \<^verbatim>\<open>await\<close> of line 59.\<close>

definition enter_renderPage :: "caller \<Rightarrow> int \<Rightarrow> main_state \<Rightarrow> progress \<times> main_state" where
  "enter_renderPage c pageNum s0 =
     (let s = log_call (Call_renderPage pageNum) s0 in
      case pdfInstance s of
        None \<Rightarrow> (Done, leave c None s)
      | Some d \<Rightarrow> (Waiting (At_getPage c d pageNum), log_call (Call_getPage d pageNum) s))"

definition page_arrived :: "env \<Rightarrow> caller \<Rightarrow> pdf_page \<Rightarrow> main_state \<Rightarrow> progress \<times> main_state" where
  "page_arrived e c page s1 =
     (let vp = getViewport e page 1.5;
          s2 = log_call (Call_getViewport page 1.5) s1
      in if \<not> getContext2d e
         then (Done, leave c (Some (JsError ''Could not get canvas context'')) s2)
         else
           (let dpr = pixel_ratio e;
                s3 = s2\<lparr>viewerContainer := Some [page_canvas dpr vp]\<rparr>;
                ps = page_render_params dpr vp
            in (Waiting (At_render c page ps), log_call (Call_render page ps) s3)))"

text \<open>\<^verbatim>\<open>loadPdf\<close> up to line 95, and from line 95 to the call of \<^verbatim>\<open>renderPage\<close>.\<close>

definition begin_loadPdf :: "env \<Rightarrow> string option \<Rightarrow> main_state \<Rightarrow> progress \<times> main_state" where
  "begin_loadPdf e arg s =
     (let s1 = s\<lparr>isLoading := True, error := None\<rparr> in
      case arg of
        None \<Rightarrow> (Done, load_failed (JsError (typeError_message e)) s1)
      | Some filePathOrUrl \<Rightarrow>
          (Waiting (At_getDocument filePathOrUrl),
           log_call (Call_getDocument (document_source filePathOrUrl)) s1))"

definition document_arrived :: "string \<Rightarrow> pdf_document \<Rightarrow> main_state \<Rightarrow> progress \<times> main_state" where
  "document_arrived filePathOrUrl d s2 =
     (let s3 = s2\<lparr>pdfInstance := Some d, totalPages := numPages d,
                   title := fileName_of filePathOrUrl\<rparr>
      in if viewerContainer s3 \<noteq> None then enter_renderPage In_loadPdf 1 s3
         else (Done, s3\<lparr>isLoading := False\<rparr>))"

text \<open>\<^verbatim>\<open>goToPage\<close> up to the call of \<^verbatim>\<open>renderPage\<close>.\<close>

definition begin_goToPage :: "int \<Rightarrow> main_state \<Rightarrow> progress \<times> main_state" where
  "begin_goToPage pageNum s =
     (if pdfInstance s = None \<or> pageNum < 1 \<or> pageNum > totalPages s then (Done, s)
      else
        (let s1 = s\<lparr>isLoading := True, currentPage := pageNum\<rparr>
         in if viewerContainer s1 \<noteq> None then enter_renderPage In_goToPage pageNum s1
            else (Done, s1\<lparr>isLoading := False\<rparr>)))"

text \<open>An operation up to its first \<^verbatim>\<open>await\<close>.\<close>

fun start :: "env \<Rightarrow> operation \<Rightarrow> main_state \<Rightarrow> progress \<times> main_state" where
  "start e Open_file s =
     (if \<not> isElectron e \<or> \<not> hasOpenPdf e then (Waiting At_file_input, s)
      else (Waiting At_dialog, s))"
| "start e (Go_to_page n) s = begin_goToPage n s"
| "start e (Page_input parsed) s =
     (case parsed of None \<Rightarrow> (Done, s) | Some pageNum \<Rightarrow> begin_goToPage pageNum s)"
| "start e (Drop_files fs) s =
     (let s1 = s\<lparr>isDragging := False\<rparr> in
      case fs of
        [] \<Rightarrow> (Done, s1)
      | file # rest \<Rightarrow>
          if file_type file = ''application/pdf''
          then begin_loadPdf e (file_path file) (s1\<lparr>currentPage := 1\<rparr>)
          else (Done, s1\<lparr>error := Some ''Please drop a valid PDF file''\<rparr>))"
| "start e Drag_over s = (Done, handleDragOver s)"
| "start e Drag_leave s = (Done, handleDragLeave s)"

text \<open>
  A waiting handler going on when its promise settles, up to its next \<^verbatim>\<open>await\<close> or its
  end; \<open>None\<close> when the settlement is not of the kind the handler waits for.
\<close>

fun resume :: "env \<Rightarrow> task \<Rightarrow> settlement \<Rightarrow> main_state \<Rightarrow> (progress \<times> main_state) option" where
  "resume e At_dialog (Dialog_settled (Rejected err)) s =
     Some (Done, s\<lparr>error := Some (''Error: '' @ message_or err ''Failed to open PDF'')\<rparr>)"
| "resume e At_dialog (Dialog_settled (Fulfilled None)) s = Some (Done, s)"
| "resume e At_dialog (Dialog_settled (Fulfilled (Some filePath))) s =
     Some (if filePath = [] then (Done, s)
           else begin_loadPdf e (Some filePath) (s\<lparr>currentPage := 1\<rparr>))"
| "resume e At_file_input (Input_changed None) s = Some (Done, s)"
| "resume e At_file_input (Input_changed (Some fileUrl)) s =
     Some (begin_loadPdf e (Some fileUrl) (s\<lparr>currentPage := 1\<rparr>))"
| "resume e (At_getDocument p) (Document_settled (Rejected err)) s =
     Some (Done, load_failed err s)"
| "resume e (At_getDocument p) (Document_settled (Fulfilled d)) s =
     Some (document_arrived p d s)"
| "resume e (At_getPage c d n) (Page_settled (Rejected err)) s =
     Some (Done, leave c (Some err) s)"
| "resume e (At_getPage c d n) (Page_settled (Fulfilled page)) s =
     Some (page_arrived e c page s)"
| "resume e (At_render c page ps) (Render_settled (Rejected err)) s =
     Some (Done, leave c (Some err) s)"
| "resume e (At_render c page ps) (Render_settled (Fulfilled u)) s =
     Some (Done, leave c None s)"
| "resume e t x s = None"

text \<open>
  The component with its waiting handlers.  An event is an operation of the user or the
  settlement of the promise that the handler at an index of the list waits for; settlements
  come in any order.  An event that fits no waiting handler changes nothing.
\<close>

record session =
  view :: main_state
  pending :: "task list"


datatype event = User operation | Settles nat settlement

fun waiting_tasks :: "progress \<Rightarrow> task list" where
  "waiting_tasks Done = []"
| "waiting_tasks (Waiting t) = [t]"

fun step :: "env \<Rightarrow> event \<Rightarrow> session \<Rightarrow> session" where
  "step e (User op) \<sigma> =
     \<lparr>view = snd (start e op (view \<sigma>)),
      pending = pending \<sigma> @ waiting_tasks (fst (start e op (view \<sigma>)))\<rparr>"
| "step e (Settles i x) \<sigma> =
     (if i < length (pending \<sigma>) then
        (case resume e (pending \<sigma> ! i) x (view \<sigma>) of
           None \<Rightarrow> \<sigma>
         | Some r \<Rightarrow>
             \<lparr>view = snd r,
              pending = take i (pending \<sigma>) @ waiting_tasks (fst r) @ drop (Suc i) (pending \<sigma>)\<rparr>)
      else \<sigma>)"


text \<open>
  The settlement the environment of a whole handler gives to a waiting handler (\<open>None\<close>:
  the promise never settles), and a handler driven to its end by these settlements, one
  after the other with nothing in between.
\<close>

fun answer :: "env \<Rightarrow> task \<Rightarrow> settlement option" where
  "answer e At_dialog =
     (case openPdf e of
        Pending \<Rightarrow> None
      | Rejects err \<Rightarrow> Some (Dialog_settled (Rejected err))
      | Resolves r \<Rightarrow> Some (Dialog_settled (Fulfilled r)))"
| "answer e At_file_input =
     (case fileInput e of No_change \<Rightarrow> None | Changed picked \<Rightarrow> Some (Input_changed picked))"
| "answer e (At_getDocument p) =
     (case getDocument e (document_source p) of
        Pending \<Rightarrow> None
      | Rejects err \<Rightarrow> Some (Document_settled (Rejected err))
      | Resolves d \<Rightarrow> Some (Document_settled (Fulfilled d)))"
| "answer e (At_getPage c d n) =
     (case getPage e d n of
        Pending \<Rightarrow> None
      | Rejects err \<Rightarrow> Some (Page_settled (Rejected err))
      | Resolves page \<Rightarrow> Some (Page_settled (Fulfilled page)))"
| "answer e (At_render c page ps) =
     (case render e page ps of
        Pending \<Rightarrow> None
      | Rejects err \<Rightarrow> Some (Render_settled (Rejected err))
      | Resolves u \<Rightarrow> Some (Render_settled (Fulfilled u)))"

fun at_once :: "nat \<Rightarrow> env \<Rightarrow> progress \<times> main_state \<Rightarrow> completion \<times> main_state" where
  "at_once k e (Done, s) = (Returned, s)"
| "at_once 0 e (Waiting t, s) = (Suspended, s)"
| "at_once (Suc k) e (Waiting t, s) =
     (case answer e t of
        None \<Rightarrow> (Suspended, s)
      | Some x \<Rightarrow>
          (case resume e t x s of
             None \<Rightarrow> (Suspended, s)
           | Some r \<Rightarrow> at_once k e r))"







section \<open>App.tsx\<close>

text \<open>The state of \<^verbatim>\<open>App\<close> (lines 14-18) and its initial value.\<close>

record app_state =
  pdfUrl :: "string option"
  app_error :: "string option"
  app_numPages :: int
  app_currentPage :: int
  scale :: real
  app_calls :: "call list"


text \<open>\<^verbatim>\<open>App.loadPdf\<close>, lines 20-37; \<open>import_ok\<close> is whether the dynamic import of the
  library succeeds.\<close>

definition app_loadPdf :: "env \<Rightarrow> bool \<Rightarrow> string \<Rightarrow> app_state \<Rightarrow> completion \<times> app_state" where
  "app_loadPdf e import_ok filePath a =
     (if \<not> import_ok
      then (Returned, a\<lparr>app_error := Some ''Failed to load PDF. Please try another file.''\<rparr>)
      else
        (let a1 = a\<lparr>app_calls := app_calls a @ [Call_getDocument (Path_arg filePath)]\<rparr> in
         case getDocument e (Path_arg filePath) of
           Pending \<Rightarrow> (Suspended, a1)
         | Rejects err \<Rightarrow>
             (Returned, a1\<lparr>app_error := Some ''Failed to load PDF. Please try another file.''\<rparr>)
         | Resolves pdf \<Rightarrow>
             (Returned, a1\<lparr>app_numPages := numPages pdf, pdfUrl := Some filePath,
                            app_error := None\<rparr>)))"

text \<open>\<^verbatim>\<open>App.handleOpenPdf\<close>, lines 39-49.  \<^verbatim>\<open>loadPdf\<close> is started and not awaited; it
  never rejects.\<close>

definition app_handleOpenPdf :: "env \<Rightarrow> bool \<Rightarrow> app_state \<Rightarrow> completion \<times> app_state" where
  "app_handleOpenPdf e import_ok a =
     (case openPdf e of
        Pending \<Rightarrow> (Suspended, a)
      | Rejects err \<Rightarrow> (Returned, a\<lparr>app_error := Some ''Failed to open file dialog''\<rparr>)
      | Resolves None \<Rightarrow> (Returned, a)
      | Resolves (Some filePath) \<Rightarrow>
          (if filePath = [] then (Returned, a)
           else (Returned, snd (app_loadPdf e import_ok filePath a))))"



text \<open>
  \<^verbatim>\<open>PdfViewer\<close> (lines 99-151): its three props, its two state cells, and the children of
  the element \<^verbatim>\<open>pdf-canvas-container\<close>, which is in the document exactly when the component's
  last render was not the loading one.
\<close>

record viewer_state =
  viewer_file :: string
  pageNumber :: int
  viewer_scale :: real
  pdfPage :: "pdf_page option"
  loading :: bool
  canvas_container :: "canvas list"
  viewer_calls :: "call list"





section \<open>Concrete runs\<close>

text \<open>
  A five-page document, an Electron host in which every library call succeeds, variations of
  it in which one call fails, and states with page 3 of the document on screen.  They are the
  inputs of the closed theorems below.
\<close>

definition report :: pdf_document where
  "report = \<lparr>doc_ref = 1, numPages = 5\<rparr>"

definition desktop :: env where
  "desktop =
     \<lparr>getDocument = (\<lambda>src. Resolves report),
      getPage = (\<lambda>d n. if 1 \<le> n \<and> n \<le> numPages d then Resolves (PageRef (nat n))
                        else Rejects (JsError ''Invalid page request.'')),
      getViewport = (\<lambda>pg sc. \<lparr>vp_width = 612 * sc, vp_height = 792 * sc\<rparr>),
      render = (\<lambda>pg ps. Resolves ()),
      getContext2d = True,
      devicePixelRatio = Some 2,
      isElectron = True,
      hasOpenPdf = True,
      openPdf = Resolves (Some ''/docs/report.pdf''),
      fileInput = No_change,
      typeError_message = ''Cannot read properties of undefined''\<rparr>"

definition leaflet :: pdf_document where
  "leaflet = \<lparr>doc_ref = 2, numPages = 1\<rparr>"

definition tablet :: env where
  "tablet = desktop\<lparr>getViewport := (\<lambda>pg sc. \<lparr>vp_width = 510 * sc, vp_height = 660 * sc\<rparr>),
                    devicePixelRatio := Some 1.5\<rparr>"

definition unreadable :: env where
  "unreadable = desktop\<lparr>getDocument := (\<lambda>src. Rejects (JsError ''Invalid PDF structure.''))\<rparr>"

definition broken_pages :: env where
  "broken_pages = desktop\<lparr>getPage := (\<lambda>d n. Rejects (JsError ''Invalid page request.''))\<rparr>"

definition slow_pages :: env where
  "slow_pages = desktop\<lparr>getPage := (\<lambda>d n. Pending)\<rparr>"

definition dialog_fails :: env where
  "dialog_fails = desktop\<lparr>openPdf := Rejects (JsError ''No handler registered'')\<rparr>"

definition dialog_cancelled :: env where
  "dialog_cancelled = desktop\<lparr>openPdf := Resolves None\<rparr>"

definition browser_pick :: env where
  "browser_pick = desktop\<lparr>isElectron := False, fileInput := Changed (Some ''blob:report'')\<rparr>"

definition reading :: main_state where
  "reading =
     \<lparr>error = None, isLoading = False, title = ''report.pdf'', currentPage = 3,
      totalPages = 5, isDragging = False, pdfInstance = Some report,
      viewerContainer = Some [\<lparr>canvas_width = 1836, canvas_height = 2376,
                                style_width = Some 918, style_height = Some 1188\<rparr>],
      calls = []\<rparr>"

definition leaflet_pdf :: dropped_file where
  "leaflet_pdf = \<lparr>file_type = ''application/pdf'', file_path = Some ''/docs/leaflet.pdf''\<rparr>"

definition notes_txt :: dropped_file where
  "notes_txt = \<lparr>file_type = ''text/plain'', file_path = Some ''/docs/notes.txt''\<rparr>"

definition report_pdf :: dropped_file where
  "report_pdf = \<lparr>file_type = ''application/pdf'', file_path = Some ''/docs/report.pdf''\<rparr>"

definition report_app :: app_state where
  "report_app =
     \<lparr>pdfUrl = Some ''/docs/report.pdf'', app_error = None, app_numPages = 5,
      app_currentPage = 3, scale = 1.5, app_calls = []\<rparr>"

definition shown_page :: viewer_state where
  "shown_page =
     \<lparr>viewer_file = ''/docs/report.pdf'', pageNumber = 3, viewer_scale = 1.5,
      pdfPage = Some (PageRef 3), loading = False,
      canvas_container = [\<lparr>canvas_width = 918, canvas_height = 1188,
                            style_width = None, style_height = None\<rparr>],
      viewer_calls = []\<rparr>"


lemmas example_defs = report_def leaflet_def desktop_def tablet_def unreadable_def
  broken_pages_def slow_pages_def dialog_fails_def dialog_cancelled_def browser_pick_def reading_def
  leaflet_pdf_def notes_txt_def report_pdf_def report_app_def shown_page_def

lemmas handler_defs = renderPage_def loadPdf_def load_failed_def handleOpenPdf_def
  goToPage_def handlePageInput_def handleDrop_def log_call_def document_source_def
  startsWith_def fileName_of_def is_separator_def pixel_ratio_def page_canvas_def
  canvas_size_def to_unsigned_long_def page_render_params_def new_calls_def
  initial_state_def page_render_outcome_def chosen_file_def



section \<open>What the handlers leave alone\<close>

lemma renderPage_frame:
  "error (snd (renderPage e n s)) = error s"
  "isLoading (snd (renderPage e n s)) = isLoading s"
  "title (snd (renderPage e n s)) = title s"
  "currentPage (snd (renderPage e n s)) = currentPage s"
  "totalPages (snd (renderPage e n s)) = totalPages s"
  "isDragging (snd (renderPage e n s)) = isDragging s"
  "pdfInstance (snd (renderPage e n s)) = pdfInstance s"
  by (simp_all add: renderPage_def log_call_def Let_def split: option.splits promise.splits)

lemma loadPdf_currentPage: "currentPage (snd (loadPdf e a s)) = currentPage s"
  by (simp add: loadPdf_def load_failed_def log_call_def Let_def renderPage_frame
      split: option.splits promise.splits completion.splits)

lemma goToPage_rejected:
  "\<not> goToPage_admits n s \<Longrightarrow> goToPage e n s = (Returned, s)"
  by (auto simp add: goToPage_def goToPage_admits_def)

lemma goToPage_currentPage:
  "goToPage_admits n s \<Longrightarrow> currentPage (snd (goToPage e n s)) = n"
  by (auto simp add: goToPage_def goToPage_admits_def Let_def renderPage_frame
      split: completion.splits)

lemma goToPage_totalPages: "totalPages (snd (goToPage e n s)) = totalPages s"
  by (simp add: goToPage_def Let_def renderPage_frame split: completion.splits)

section \<open>The cases of renderPage\<close>

lemma renderPage_outcome:
  "pdfInstance s = Some d \<Longrightarrow> fst (renderPage e n s) = page_render_outcome e d n"
  by (simp add: renderPage_def page_render_outcome_def log_call_def Let_def
      split: promise.splits)




section \<open>The cases of the handlers\<close>

lemma handleOpenPdf_browser:
  assumes "\<not> isElectron e \<or> \<not> hasOpenPdf e"
  shows "handleOpenPdf e s =
     (case fileInput e of
        No_change \<Rightarrow> (Suspended, s)
      | Changed None \<Rightarrow> (Returned, s)
      | Changed (Some fileUrl) \<Rightarrow> loadPdf e (Some fileUrl) (s\<lparr>currentPage := 1\<rparr>))"
  using assms unfolding handleOpenPdf_def by (simp only: if_True)

lemma handleOpenPdf_electron:
  assumes "isElectron e" and "hasOpenPdf e"
  shows "handleOpenPdf e s =
     (case openPdf e of
        Pending \<Rightarrow> (Suspended, s)
      | Rejects err \<Rightarrow>
          (Returned, s\<lparr>error := Some (''Error: '' @ message_or err ''Failed to open PDF'')\<rparr>)
      | Resolves None \<Rightarrow> (Returned, s)
      | Resolves (Some filePath) \<Rightarrow>
          (if filePath = [] then (Returned, s)
           else loadPdf e (Some filePath) (s\<lparr>currentPage := 1\<rparr>)))"
  using assms unfolding handleOpenPdf_def by simp

lemma handleOpenPdf_cases:
  "(\<exists>c. handleOpenPdf e s = (c, s))
   \<or> (\<exists>m. handleOpenPdf e s = (Returned, s\<lparr>error := Some m\<rparr>))
   \<or> (\<exists>p. handleOpenPdf e s = loadPdf e (Some p) (s\<lparr>currentPage := 1\<rparr>))"
proof (cases "\<not> isElectron e \<or> \<not> hasOpenPdf e")
  case True
  show ?thesis
    unfolding handleOpenPdf_browser [OF True]
    by (cases "fileInput e") (auto split: option.splits)
next
  case False
  then have el: "isElectron e" "hasOpenPdf e" by simp_all
  show ?thesis
    unfolding handleOpenPdf_electron [OF el]
    by (cases "openPdf e") (auto split: option.splits)
qed

lemma handleOpenPdf_chosen:
  assumes "chosen_file e = Some p"
  shows "handleOpenPdf e s = loadPdf e (Some p) (s\<lparr>currentPage := 1\<rparr>)"
proof (cases "\<not> isElectron e \<or> \<not> hasOpenPdf e")
  case True
  with assms have "fileInput e = Changed (Some p)"
    by (auto simp add: chosen_file_def split: file_input.splits)
  then show ?thesis
    by (simp add: handleOpenPdf_browser [OF True])
next
  case False
  then have el: "isElectron e" "hasOpenPdf e" by simp_all
  with assms have "openPdf e = Resolves (Some p) \<and> p \<noteq> []"
    by (auto simp add: chosen_file_def split: promise.splits option.splits if_splits)
  then show ?thesis
    by (simp add: handleOpenPdf_electron [OF el])
qed

lemma goToPage_admitted:
  assumes "goToPage_admits n s" and "viewerContainer s \<noteq> None"
  shows "goToPage e n s =
     (case fst (renderPage e n (s\<lparr>isLoading := True, currentPage := n\<rparr>)) of
        Suspended \<Rightarrow> (Suspended, snd (renderPage e n (s\<lparr>isLoading := True, currentPage := n\<rparr>)))
      | Threw err \<Rightarrow>
          (Returned,
           (snd (renderPage e n (s\<lparr>isLoading := True, currentPage := n\<rparr>)))
             \<lparr>error := Some (''Error navigating to page: '' @ message_or err ''Unknown error''),
              isLoading := False\<rparr>)
      | Returned \<Rightarrow>
          (Returned, (snd (renderPage e n (s\<lparr>isLoading := True, currentPage := n\<rparr>)))
             \<lparr>isLoading := False\<rparr>))"
  using assms by (auto simp add: goToPage_def goToPage_admits_def Let_def)


lemma goToPage_render_fails:
  assumes "pdfInstance s = Some d" and "1 \<le> n" and "n \<le> totalPages s"
    and "viewerContainer s \<noteq> None" and "page_render_outcome e d n = Threw err"
  shows "fst (goToPage e n s) = Returned"
    and "error (snd (goToPage e n s)) =
           Some (''Error navigating to page: '' @ message_or err ''Unknown error'')"
    and "\<not> isLoading (snd (goToPage e n s))"
    and "currentPage (snd (goToPage e n s)) = n"
    and "totalPages (snd (goToPage e n s)) = totalPages s"
proof -
  let ?s1 = "s\<lparr>isLoading := True, currentPage := n\<rparr>"
  from assms(1-3) have adm: "goToPage_admits n s"
    by (simp add: goToPage_admits_def)
  have "pdfInstance ?s1 = Some d" using assms(1) by simp
  then have thrown: "fst (renderPage e n ?s1) = Threw err"
    using assms(5) by (simp add: renderPage_outcome)
  show "fst (goToPage e n s) = Returned"
    using thrown by (simp add: goToPage_admitted [OF adm assms(4)])
  show "error (snd (goToPage e n s)) =
           Some (''Error navigating to page: '' @ message_or err ''Unknown error'')"
    using thrown by (simp add: goToPage_admitted [OF adm assms(4)])
  show "\<not> isLoading (snd (goToPage e n s))"
    using thrown by (simp add: goToPage_admitted [OF adm assms(4)])
  show "currentPage (snd (goToPage e n s)) = n"
    using adm by (rule goToPage_currentPage)
  show "totalPages (snd (goToPage e n s)) = totalPages s"
    by (rule goToPage_totalPages)
qed

lemma loadPdf_rejected:
  assumes "getDocument e (document_source p) = Rejects err"
  shows "loadPdf e (Some p) s =
     (Returned,
      s\<lparr>isLoading := False,
        error := Some (''Error loading PDF: '' @ message_or err ''Unknown error''),
        calls := calls s @ [Call_getDocument (document_source p)]\<rparr>)"
  using assms by (simp add: loadPdf_def load_failed_def log_call_def)

lemma loadPdf_resolved:
  assumes "getDocument e (document_source p) = Resolves d"
  shows "totalPages (snd (loadPdf e (Some p) s)) = numPages d"
    and "pdfInstance (snd (loadPdf e (Some p) s)) = Some d"
  using assms
  by (simp_all add: loadPdf_def load_failed_def log_call_def Let_def renderPage_frame
      split: completion.splits)

lemma loadPdf_first_page:
  assumes "getDocument e (document_source p) = Resolves d" and "viewerContainer s \<noteq> None"
  shows "page_render_outcome e d 1 = Returned \<Longrightarrow>
           fst (loadPdf e (Some p) s) = Returned \<and> \<not> isLoading (snd (loadPdf e (Some p) s))
           \<and> error (snd (loadPdf e (Some p) s)) = None"
    and "page_render_outcome e d 1 = Threw err \<Longrightarrow>
           fst (loadPdf e (Some p) s) = Returned \<and> \<not> isLoading (snd (loadPdf e (Some p) s))
           \<and> error (snd (loadPdf e (Some p) s)) =
               Some (''Error loading PDF: '' @ message_or err ''Unknown error'')"
proof -
  let ?s3 = "(log_call (Call_getDocument (document_source p))
                (s\<lparr>isLoading := True, error := None\<rparr>))
      \<lparr>pdfInstance := Some d, totalPages := numPages d, title := fileName_of p\<rparr>"
  have out: "fst (renderPage e 1 ?s3) = page_render_outcome e d 1"
    by (rule renderPage_outcome) simp
  have mounted: "viewerContainer ?s3 \<noteq> None"
    using assms(2) by (simp add: log_call_def)
  show "fst (loadPdf e (Some p) s) = Returned \<and> \<not> isLoading (snd (loadPdf e (Some p) s))
           \<and> error (snd (loadPdf e (Some p) s)) = None"
    if "page_render_outcome e d 1 = Returned"
    using assms(1) mounted out that
    by (simp add: loadPdf_def Let_def renderPage_frame log_call_def)
  show "fst (loadPdf e (Some p) s) = Returned \<and> \<not> isLoading (snd (loadPdf e (Some p) s))
           \<and> error (snd (loadPdf e (Some p) s)) =
               Some (''Error loading PDF: '' @ message_or err ''Unknown error'')"
    if "page_render_outcome e d 1 = Threw err"
    using assms(1) mounted out that
    by (simp add: loadPdf_def load_failed_def Let_def log_call_def)
qed


lemma loadPdf_complete:
  "fst (loadPdf e a s) \<noteq> Suspended \<Longrightarrow>
   fst (loadPdf e a s) = Returned \<and> \<not> isLoading (snd (loadPdf e a s))"
  by (simp add: loadPdf_def load_failed_def Let_def
      split: option.splits promise.splits completion.splits if_splits)

lemma goToPage_complete:
  assumes "fst (goToPage e n s) \<noteq> Suspended"
  shows "fst (goToPage e n s) = Returned"
    and "goToPage_admits n s \<or> \<not> isLoading s \<Longrightarrow> \<not> isLoading (snd (goToPage e n s))"
  using assms
  by (auto simp add: goToPage_def goToPage_admits_def Let_def split: completion.splits if_splits)


section \<open>The navigation invariant\<close>

lemma nav_invariant_first_page: "currentPage s = 1 \<Longrightarrow> nav_invariant s"
  by (simp add: nav_invariant_def)

lemma loadPdf_nav_invariant:
  "nav_invariant (snd (loadPdf e a (s\<lparr>currentPage := 1\<rparr>)))"
  by (rule nav_invariant_first_page) (simp add: loadPdf_currentPage)

lemma goToPage_nav_invariant:
  assumes "nav_invariant s"
  shows "nav_invariant (snd (goToPage e n s))"
proof (cases "goToPage_admits n s")
  case True
  then have "1 \<le> n" and "n \<le> totalPages s"
    by (simp_all add: goToPage_admits_def)
  with True show ?thesis
    by (simp add: nav_invariant_def goToPage_currentPage goToPage_totalPages)
next
  case False
  with assms show ?thesis by (simp add: goToPage_rejected)
qed

lemma handleOpenPdf_nav_invariant:
  assumes "nav_invariant s"
  shows "nav_invariant (snd (handleOpenPdf e s))"
proof -
  consider (same) c where "handleOpenPdf e s = (c, s)"
    | (err) m where "handleOpenPdf e s = (Returned, s\<lparr>error := Some m\<rparr>)"
    | (load) p where "handleOpenPdf e s = loadPdf e (Some p) (s\<lparr>currentPage := 1\<rparr>)"
    using handleOpenPdf_cases [of e s] by blast
  then show ?thesis
  proof cases
    case same
    with assms show ?thesis by simp
  next
    case err
    with assms show ?thesis by (simp add: nav_invariant_def)
  next
    case load
    then show ?thesis by (simp add: loadPdf_nav_invariant)
  qed
qed

lemma handleDrop_nav_invariant:
  assumes "nav_invariant s"
  shows "nav_invariant (snd (handleDrop e fs s))"
proof (cases fs)
  case Nil
  with assms show ?thesis by (simp add: handleDrop_def nav_invariant_def)
next
  case (Cons f rest)
  show ?thesis
  proof (cases "file_type f = ''application/pdf''")
    case True
    have "nav_invariant
        (snd (loadPdf e (file_path f) (s\<lparr>isDragging := False\<rparr>\<lparr>currentPage := 1\<rparr>)))"
      by (rule loadPdf_nav_invariant)
    with True Cons show ?thesis by (simp add: handleDrop_def)
  next
    case False
    with assms Cons show ?thesis by (simp add: handleDrop_def nav_invariant_def)
  qed
qed

lemma handlePageInput_nav_invariant:
  assumes "nav_invariant s"
  shows "nav_invariant (snd (handlePageInput e v s))"
  using assms by (simp add: handlePageInput_def goToPage_nav_invariant split: option.splits)

lemma perform_nav_invariant:
  assumes "nav_invariant s"
  shows "nav_invariant (perform e op s)"
proof (cases op)
  case Open_file
  with assms show ?thesis by (simp add: handleOpenPdf_nav_invariant)
next
  case (Go_to_page n)
  with assms show ?thesis by (simp add: goToPage_nav_invariant)
next
  case (Drop_files fs)
  with assms show ?thesis by (simp add: handleDrop_nav_invariant)
next
  case (Page_input v)
  with assms show ?thesis by (simp add: handlePageInput_nav_invariant)
next
  case Drag_over
  with assms show ?thesis by (simp add: handleDragOver_def nav_invariant_def)
next
  case Drag_leave
  with assms show ?thesis by (simp add: handleDragLeave_def nav_invariant_def)
qed

lemma run_nav_invariant:
  "nav_invariant s \<Longrightarrow> nav_invariant (run steps s)"
  by (induction steps arbitrary: s) (simp_all add: perform_nav_invariant)

section \<open>The loading flag\<close>

lemma handleOpenPdf_not_loading:
  assumes "\<not> isLoading s" and "fst (handleOpenPdf e s) \<noteq> Suspended"
  shows "\<not> isLoading (snd (handleOpenPdf e s))"
proof -
  consider (same) c where "handleOpenPdf e s = (c, s)"
    | (err) m where "handleOpenPdf e s = (Returned, s\<lparr>error := Some m\<rparr>)"
    | (load) p where "handleOpenPdf e s = loadPdf e (Some p) (s\<lparr>currentPage := 1\<rparr>)"
    using handleOpenPdf_cases [of e s] by blast
  then show ?thesis
  proof cases
    case same
    with assms show ?thesis by simp
  next
    case err
    with assms show ?thesis by simp
  next
    case load
    with assms(2) show ?thesis by (simp add: loadPdf_complete)
  qed
qed

lemma handleDrop_not_loading:
  assumes "\<not> isLoading s" and "fst (handleDrop e fs s) \<noteq> Suspended"
  shows "\<not> isLoading (snd (handleDrop e fs s))"
proof (cases fs)
  case Nil
  with assms show ?thesis by (simp add: handleDrop_def)
next
  case (Cons f rest)
  show ?thesis
  proof (cases "file_type f = ''application/pdf''")
    case True
    with Cons assms(2) show ?thesis by (simp add: handleDrop_def loadPdf_complete)
  next
    case False
    with Cons assms(1) show ?thesis by (simp add: handleDrop_def)
  qed
qed

lemma perform_not_loading:
  assumes "\<not> isLoading s" and "completes e op s"
  shows "\<not> isLoading (perform e op s)"
proof (cases op)
  case Open_file
  with assms show ?thesis by (simp add: handleOpenPdf_not_loading)
next
  case (Go_to_page n)
  with assms show ?thesis by (simp add: goToPage_complete(2))
next
  case (Drop_files fs)
  with assms show ?thesis by (simp add: handleDrop_not_loading)
next
  case (Page_input v)
  with assms show ?thesis
    by (simp add: handlePageInput_def goToPage_complete(2) split: option.splits)
next
  case Drag_over
  with assms show ?thesis by (simp add: handleDragOver_def)
next
  case Drag_leave
  with assms show ?thesis by (simp add: handleDragLeave_def)
qed

lemma run_not_loading:
  "\<not> isLoading s \<Longrightarrow> all_complete steps s \<Longrightarrow> \<not> isLoading (run steps s)"
  by (induction steps arbitrary: s) (simp_all add: perform_not_loading)


section \<open>A whole handler is its pieces, every promise answered at once\<close>

lemma renderPage_at_once:
  "at_once (Suc (Suc k)) e (enter_renderPage c n s) =
     (case fst (renderPage e n s) of
        Suspended \<Rightarrow> (Suspended, snd (renderPage e n s))
      | Threw err \<Rightarrow> (Returned, leave c (Some err) (snd (renderPage e n s)))
      | Returned \<Rightarrow> (Returned, leave c None (snd (renderPage e n s))))"
proof (cases "pdfInstance s")
  case None
  then show ?thesis
    by (simp add: enter_renderPage_def renderPage_def log_call_def)
next
  case (Some d)
  show ?thesis
  proof (cases "getPage e d n")
    case Pending
    with Some show ?thesis
      by (simp add: enter_renderPage_def renderPage_def log_call_def)
  next
    case (Rejects err)
    with Some show ?thesis
      by (simp add: enter_renderPage_def renderPage_def log_call_def)
  next
    case (Resolves page)
    show ?thesis
    proof (cases "getContext2d e")
      case False
      with Some Resolves show ?thesis
        by (simp add: enter_renderPage_def renderPage_def page_arrived_def log_call_def)
    next
      case True
      with Some Resolves show ?thesis
        by (cases "render e page
                     (page_render_params (pixel_ratio e) (getViewport e page 1.5))")
           (simp_all add: enter_renderPage_def renderPage_def page_arrived_def log_call_def
              Let_def)
    qed
  qed
qed

lemma goToPage_at_once:
  "goToPage e n s = at_once (Suc (Suc k)) e (begin_goToPage n s)"
proof (cases "goToPage_admits n s")
  case False
  then show ?thesis
    by (auto simp add: goToPage_def begin_goToPage_def goToPage_admits_def)
next
  case True
  show ?thesis
  proof (cases "viewerContainer s = None")
    case True
    with \<open>goToPage_admits n s\<close> show ?thesis
      by (auto simp add: goToPage_def begin_goToPage_def goToPage_admits_def)
  next
    case False
    with True have "begin_goToPage n s =
        enter_renderPage In_goToPage n (s\<lparr>isLoading := True, currentPage := n\<rparr>)"
      by (auto simp add: begin_goToPage_def goToPage_admits_def)
    then show ?thesis
      using goToPage_admitted [OF True False, of e]
      by (simp add: renderPage_at_once leave_def split: completion.splits)
  qed
qed

lemma loadPdf_at_once:
  "loadPdf e a s = at_once (Suc (Suc (Suc k))) e (begin_loadPdf e a s)"
proof (cases a)
  case None
  then show ?thesis
    by (simp add: loadPdf_def begin_loadPdf_def)
next
  case (Some p)
  show ?thesis
  proof (cases "getDocument e (document_source p)")
    case Pending
    with Some show ?thesis
      by (simp add: loadPdf_def begin_loadPdf_def)
  next
    case (Rejects err)
    with Some show ?thesis
      by (simp add: loadPdf_def begin_loadPdf_def)
  next
    case (Resolves d)
    with Some show ?thesis
      by (simp add: loadPdf_def begin_loadPdf_def document_arrived_def Let_def
          renderPage_at_once leave_def log_call_def split: completion.splits)
  qed
qed

lemma handleOpenPdf_at_once:
  "handleOpenPdf e s = at_once (Suc (Suc (Suc (Suc k)))) e (start e Open_file s)"
proof (cases "\<not> isElectron e \<or> \<not> hasOpenPdf e")
  case True
  have "handleOpenPdf e s = at_once (Suc (Suc (Suc (Suc k)))) e (Waiting At_file_input, s)"
    unfolding handleOpenPdf_browser [OF True]
    by (cases "fileInput e")
       (auto simp add: loadPdf_at_once [where k = k] split: option.splits)
  with True show ?thesis by auto
next
  case False
  then have el: "isElectron e" "hasOpenPdf e" by simp_all
  have "handleOpenPdf e s = at_once (Suc (Suc (Suc (Suc k)))) e (Waiting At_dialog, s)"
    unfolding handleOpenPdf_electron [OF el]
    by (cases "openPdf e")
       (auto simp add: loadPdf_at_once [where k = k] split: option.splits)
  with el show ?thesis by simp
qed

lemma handleDrop_at_once:
  "handleDrop e fs s = at_once (Suc (Suc (Suc k))) e (start e (Drop_files fs) s)"
  by (simp add: handleDrop_def Let_def loadPdf_at_once [where k = k] split: list.splits)

lemma handlePageInput_at_once:
  "handlePageInput e parsed s = at_once (Suc (Suc k)) e (start e (Page_input parsed) s)"
  by (simp add: handlePageInput_def goToPage_at_once [where k = k] split: option.splits)

lemma perform_at_once:
  "perform e op s = snd (at_once 4 e (start e op s))"
proof -
  have four: "(4::nat) = Suc (Suc (Suc (Suc 0)))" by simp
  show ?thesis
    unfolding four
    by (cases op)
       (simp_all add: handleOpenPdf_at_once [where k = 0]
          goToPage_at_once [where k = "Suc (Suc 0)"] handleDrop_at_once [where k = "Suc 0"]
          handlePageInput_at_once [where k = "Suc (Suc 0)"])
qed


section \<open>The invariant when handlers overlap\<close>















section \<open>Further cases of the handlers\<close>











section \<open>The page each handler asks renderPage for\<close>











section \<open>The claims\<close>







text \<open>
  Claim C3.  \<^verbatim>\<open>goToPage(n)\<close> with \<open>n < 1\<close>, with \<open>n > totalPages\<close>, or with no document
  loaded returns the state it was given: every component is unchanged, the log of calls
  included, so nothing is rendered.
\<close>

theorem goToPage_out_of_range:
  assumes "n < 1 \<or> n > totalPages s \<or> pdfInstance s = None"
  shows "goToPage e n s = (Returned, s)"
  using assms by (auto simp add: goToPage_def)

theorem goToPage_out_of_range_witness:
  "(0::int) < 1 \<and> 6 > totalPages reading \<and> pdfInstance (initial_state (Some [])) = None
   \<and> goToPage desktop 0 reading = (Returned, reading)
   \<and> goToPage desktop 6 reading = (Returned, reading)
   \<and> goToPage desktop 1 (initial_state (Some [])) = (Returned, initial_state (Some []))"
proof -
  have low: "(0::int) < 1 \<or> 0 > totalPages reading \<or> pdfInstance reading = None"
    by simp
  have high: "(6::int) < 1 \<or> 6 > totalPages reading \<or> pdfInstance reading = None"
    by (simp add: reading_def)
  have absent: "(1::int) < 1 \<or> 1 > totalPages (initial_state (Some []))
      \<or> pdfInstance (initial_state (Some [])) = None"
    by (simp add: initial_state_def)
  from goToPage_out_of_range [OF low, of desktop] goToPage_out_of_range [OF high, of desktop]
    goToPage_out_of_range [OF absent, of desktop]
  show ?thesis by (simp add: reading_def initial_state_def)
qed

text \<open>
  Claim C4, as the code has it.  Every failure is caught where it occurs: the handler
  returns, a non-empty message is set and the loading flag is false.  A failure of the file
  dialog and a dropped file of another type leave \<open>currentPage\<close> and \<open>totalPages\<close> as they
  were.  A document that fails to load leaves \<open>totalPages\<close> and the old handle, but the open
  and the drop handler have set \<open>currentPage\<close> to 1 before they load.  A page that fails to
  render in \<^verbatim>\<open>goToPage\<close> leaves \<open>totalPages\<close>, and \<open>currentPage\<close> is the requested page.
  A first page that fails to render after a successful load leaves the new document in
  place: \<open>totalPages\<close> is its page count and \<open>currentPage\<close> is 1.
\<close>

theorem failures_caught:
  "(isElectron e \<and> hasOpenPdf e \<and> openPdf e = Rejects err \<longrightarrow>
      handleOpenPdf e s =
        (Returned, s\<lparr>error := Some (''Error: '' @ message_or err ''Failed to open PDF'')\<rparr>)
      \<and> error_shown (snd (handleOpenPdf e s)))
   \<and> (file_type f \<noteq> ''application/pdf'' \<longrightarrow>
      handleDrop e (f # rest) s =
        (Returned, s\<lparr>isDragging := False, error := Some ''Please drop a valid PDF file''\<rparr>)
      \<and> error_shown (snd (handleDrop e (f # rest) s)))
   \<and> (chosen_file e = Some p \<and> getDocument e (document_source p) = Rejects err \<longrightarrow>
      handleOpenPdf e s =
        (Returned,
         s\<lparr>currentPage := 1, isLoading := False,
           error := Some (''Error loading PDF: '' @ message_or err ''Unknown error''),
           calls := calls s @ [Call_getDocument (document_source p)]\<rparr>)
      \<and> error_shown (snd (handleOpenPdf e s)))
   \<and> (file_type f = ''application/pdf'' \<and> file_path f = Some p
       \<and> getDocument e (document_source p) = Rejects err \<longrightarrow>
      handleDrop e (f # rest) s =
        (Returned,
         s\<lparr>isDragging := False, currentPage := 1, isLoading := False,
           error := Some (''Error loading PDF: '' @ message_or err ''Unknown error''),
           calls := calls s @ [Call_getDocument (document_source p)]\<rparr>)
      \<and> error_shown (snd (handleDrop e (f # rest) s)))
   \<and> (pdfInstance s = Some d \<and> 1 \<le> n \<and> n \<le> totalPages s \<and> viewerContainer s \<noteq> None
       \<and> page_render_outcome e d n = Threw err \<longrightarrow>
      fst (goToPage e n s) = Returned
      \<and> error_shown (snd (goToPage e n s))
      \<and> \<not> isLoading (snd (goToPage e n s))
      \<and> currentPage (snd (goToPage e n s)) = n
      \<and> totalPages (snd (goToPage e n s)) = totalPages s)
   \<and> (chosen_file e = Some p \<and> getDocument e (document_source p) = Resolves d
       \<and> viewerContainer s \<noteq> None \<and> page_render_outcome e d 1 = Threw err \<longrightarrow>
      fst (handleOpenPdf e s) = Returned
      \<and> error_shown (snd (handleOpenPdf e s))
      \<and> \<not> isLoading (snd (handleOpenPdf e s))
      \<and> currentPage (snd (handleOpenPdf e s)) = 1
      \<and> totalPages (snd (handleOpenPdf e s)) = numPages d
      \<and> pdfInstance (snd (handleOpenPdf e s)) = Some d)"
proof -
  have dialog: "handleOpenPdf e s =
        (Returned, s\<lparr>error := Some (''Error: '' @ message_or err ''Failed to open PDF'')\<rparr>)
      \<and> error_shown (snd (handleOpenPdf e s))"
    if "isElectron e" "hasOpenPdf e" "openPdf e = Rejects err"
    using that by (simp add: handleOpenPdf_electron error_shown_def)
  have other_type: "handleDrop e (f # rest) s =
        (Returned, s\<lparr>isDragging := False, error := Some ''Please drop a valid PDF file''\<rparr>)
      \<and> error_shown (snd (handleDrop e (f # rest) s))"
    if "file_type f \<noteq> ''application/pdf''"
    using that by (simp add: handleDrop_def error_shown_def)
  have opened: "handleOpenPdf e s =
        (Returned,
         s\<lparr>currentPage := 1, isLoading := False,
           error := Some (''Error loading PDF: '' @ message_or err ''Unknown error''),
           calls := calls s @ [Call_getDocument (document_source p)]\<rparr>)
      \<and> error_shown (snd (handleOpenPdf e s))"
    if "chosen_file e = Some p" "getDocument e (document_source p) = Rejects err"
    by (simp add: handleOpenPdf_chosen [OF that(1)] loadPdf_rejected [OF that(2)]
        error_shown_def)
  have dropped: "handleDrop e (f # rest) s =
        (Returned,
         s\<lparr>isDragging := False, currentPage := 1, isLoading := False,
           error := Some (''Error loading PDF: '' @ message_or err ''Unknown error''),
           calls := calls s @ [Call_getDocument (document_source p)]\<rparr>)
      \<and> error_shown (snd (handleDrop e (f # rest) s))"
    if "file_type f = ''application/pdf''" "file_path f = Some p"
       "getDocument e (document_source p) = Rejects err"
    using that(1,2) by (simp add: handleDrop_def loadPdf_rejected [OF that(3)] error_shown_def)
  have nav: "fst (goToPage e n s) = Returned
      \<and> error_shown (snd (goToPage e n s))
      \<and> \<not> isLoading (snd (goToPage e n s))
      \<and> currentPage (snd (goToPage e n s)) = n
      \<and> totalPages (snd (goToPage e n s)) = totalPages s"
    if "pdfInstance s = Some d" "1 \<le> n" "n \<le> totalPages s" "viewerContainer s \<noteq> None"
       "page_render_outcome e d n = Threw err"
    using goToPage_render_fails [OF that] by (simp add: error_shown_def)
  have first: "fst (handleOpenPdf e s) = Returned
      \<and> error_shown (snd (handleOpenPdf e s))
      \<and> \<not> isLoading (snd (handleOpenPdf e s))
      \<and> currentPage (snd (handleOpenPdf e s)) = 1
      \<and> totalPages (snd (handleOpenPdf e s)) = numPages d
      \<and> pdfInstance (snd (handleOpenPdf e s)) = Some d"
    if "chosen_file e = Some p" "getDocument e (document_source p) = Resolves d"
       "viewerContainer s \<noteq> None" "page_render_outcome e d 1 = Threw err"
  proof -
    let ?s1 = "s\<lparr>currentPage := 1\<rparr>"
    have mounted: "viewerContainer ?s1 \<noteq> None" using that(3) by simp
    from loadPdf_first_page(2) [OF that(2) mounted that(4)]
      loadPdf_resolved [OF that(2), of ?s1] loadPdf_currentPage [of e "Some p" ?s1]
    show ?thesis
      by (simp add: handleOpenPdf_chosen [OF that(1)] error_shown_def)
  qed
  from dialog other_type opened dropped nav first show ?thesis by blast
qed

theorem failures_caught_witness:
  "isElectron dialog_fails \<and> hasOpenPdf dialog_fails
   \<and> openPdf dialog_fails = Rejects (JsError ''No handler registered'')
   \<and> handleOpenPdf dialog_fails reading
       = (Returned, reading\<lparr>error := Some ''Error: No handler registered''\<rparr>)
   \<and> file_type notes_txt \<noteq> ''application/pdf''
   \<and> handleDrop desktop [notes_txt] reading
       = (Returned, reading\<lparr>error := Some ''Please drop a valid PDF file''\<rparr>)
   \<and> chosen_file unreadable = Some ''/docs/report.pdf''
   \<and> getDocument unreadable (document_source ''/docs/report.pdf'')
       = Rejects (JsError ''Invalid PDF structure.'')
   \<and> handleOpenPdf unreadable reading
       = (Returned,
          reading\<lparr>currentPage := 1,
                  error := Some ''Error loading PDF: Invalid PDF structure.'',
                  calls := [Call_getDocument (Path_arg ''/docs/report.pdf'')]\<rparr>)
   \<and> file_type report_pdf = ''application/pdf''
   \<and> file_path report_pdf = Some ''/docs/report.pdf''
   \<and> currentPage (snd (handleDrop unreadable [report_pdf] reading)) = 1
   \<and> totalPages (snd (handleDrop unreadable [report_pdf] reading)) = 5
   \<and> page_render_outcome broken_pages report 4 = Threw (JsError ''Invalid page request.'')
   \<and> currentPage (snd (goToPage broken_pages 4 reading)) = 4
   \<and> error_shown (snd (goToPage broken_pages 4 reading))
   \<and> chosen_file broken_pages = Some ''/docs/report.pdf''
   \<and> page_render_outcome broken_pages report 1 = Threw (JsError ''Invalid page request.'')
   \<and> totalPages (snd (handleOpenPdf broken_pages (initial_state (Some [])))) = 5
   \<and> error_shown (snd (handleOpenPdf broken_pages (initial_state (Some []))))"
proof -
  have dialog: "isElectron dialog_fails \<and> hasOpenPdf dialog_fails
      \<and> openPdf dialog_fails = Rejects (JsError ''No handler registered'')"
    by (simp add: dialog_fails_def desktop_def)
  have other_type: "file_type notes_txt \<noteq> ''application/pdf''"
    by (simp add: notes_txt_def)
  have opened: "chosen_file unreadable = Some ''/docs/report.pdf''
      \<and> getDocument unreadable (document_source ''/docs/report.pdf'')
          = Rejects (JsError ''Invalid PDF structure.'')"
    by (simp add: chosen_file_def unreadable_def desktop_def)
  have src: "document_source ''/docs/report.pdf'' = Path_arg ''/docs/report.pdf''"
    by (simp add: document_source_def startsWith_def)
  have dropped: "file_type report_pdf = ''application/pdf''
      \<and> file_path report_pdf = Some ''/docs/report.pdf''"
    by (simp add: report_pdf_def)
  have nav: "pdfInstance reading = Some report \<and> (1::int) \<le> 4 \<and> 4 \<le> totalPages reading
      \<and> viewerContainer reading \<noteq> None
      \<and> page_render_outcome broken_pages report 4 = Threw (JsError ''Invalid page request.'')"
    by (simp add: reading_def page_render_outcome_def broken_pages_def desktop_def)
  have first: "chosen_file broken_pages = Some ''/docs/report.pdf''
      \<and> getDocument broken_pages (document_source ''/docs/report.pdf'') = Resolves report
      \<and> viewerContainer (initial_state (Some [])) \<noteq> None
      \<and> page_render_outcome broken_pages report 1 = Threw (JsError ''Invalid page request.'')"
    by (simp add: chosen_file_def page_render_outcome_def broken_pages_def desktop_def
        initial_state_def)
  have tot: "totalPages reading = 5" "numPages report = 5"
    by (simp_all add: reading_def report_def)
  from dialog other_type opened dropped nav first
    failures_caught [of dialog_fails "JsError ''No handler registered''" reading notes_txt
      "[]" "''/docs/report.pdf''" report 4]
    failures_caught [of unreadable "JsError ''Invalid PDF structure.''" reading report_pdf
      "[]" "''/docs/report.pdf''" report 4]
    failures_caught [of broken_pages "JsError ''Invalid page request.''" reading notes_txt
      "[]" "''/docs/report.pdf''" report 4]
    failures_caught [of broken_pages "JsError ''Invalid page request.''"
      "initial_state (Some [])" notes_txt "[]" "''/docs/report.pdf''" report 4]
    failures_caught [of desktop "JsError ''Invalid page request.''" reading notes_txt
      "[]" "''/docs/report.pdf''" report 4]
  show ?thesis
    by (simp add: src tot reading_def)
qed

text \<open>
  The claim as it was stated fails where a document does not load: page 3 of 5 is on screen,
  the user opens a file that the library rejects, and \<open>currentPage\<close> is 1 afterwards.  It
  also fails where a page does not render: \<^verbatim>\<open>goToPage(4)\<close> leaves \<open>currentPage\<close> at 4.
\<close>

theorem failed_load_resets_page:
  "chosen_file unreadable = Some ''/docs/report.pdf''
   \<and> getDocument unreadable (document_source ''/docs/report.pdf'')
       = Rejects (JsError ''Invalid PDF structure.'')
   \<and> currentPage reading = 3
   \<and> fst (handleOpenPdf unreadable reading) = Returned
   \<and> error (snd (handleOpenPdf unreadable reading))
       = Some ''Error loading PDF: Invalid PDF structure.''
   \<and> currentPage (snd (handleOpenPdf unreadable reading)) = 1
   \<and> currentPage (snd (handleOpenPdf unreadable reading)) \<noteq> currentPage reading
   \<and> page_render_outcome broken_pages report 4 = Threw (JsError ''Invalid page request.'')
   \<and> error (snd (goToPage broken_pages 4 reading))
       = Some ''Error navigating to page: Invalid page request.''
   \<and> currentPage (snd (goToPage broken_pages 4 reading)) = 4
   \<and> currentPage (snd (goToPage broken_pages 4 reading)) \<noteq> currentPage reading"
  by (simp add: handler_defs example_defs Let_def)




text \<open>
  Claim C6, as the code has it.  The drop handler reads the first dropped file only.  When
  that file has a MIME type other than \<open>application/pdf\<close>, the handler sets the message
  \<open>Please drop a valid PDF file\<close>, which is shown, and leaves \<open>currentPage\<close>,
  \<open>totalPages\<close>, the document handle and the log of calls unchanged.  It passes a file
  to \<^verbatim>\<open>loadPdf\<close> exactly when the first file's type is \<open>application/pdf\<close>; the files
  after the first make no difference, whatever their types; a drop without files only
  clears the dragging flag.
\<close>

theorem drop_accepts_pdf_only:
  "(file_type f \<noteq> ''application/pdf'' \<longrightarrow>
      handleDrop e (f # rest) s =
        (Returned, s\<lparr>isDragging := False, error := Some ''Please drop a valid PDF file''\<rparr>)
      \<and> error_shown (snd (handleDrop e (f # rest) s))
      \<and> currentPage (snd (handleDrop e (f # rest) s)) = currentPage s
      \<and> totalPages (snd (handleDrop e (f # rest) s)) = totalPages s
      \<and> pdfInstance (snd (handleDrop e (f # rest) s)) = pdfInstance s
      \<and> calls (snd (handleDrop e (f # rest) s)) = calls s)
   \<and> (file_type f = ''application/pdf'' \<longrightarrow>
      handleDrop e (f # rest) s =
        loadPdf e (file_path f) (s\<lparr>isDragging := False, currentPage := 1\<rparr>))
   \<and> handleDrop e (f # rest) s = handleDrop e [f] s
   \<and> handleDrop e [] s = (Returned, s\<lparr>isDragging := False\<rparr>)"
  by (simp add: handleDrop_def error_shown_def)

theorem drop_accepts_pdf_only_witness:
  "file_type notes_txt \<noteq> ''application/pdf''
   \<and> handleDrop desktop [notes_txt, report_pdf] reading
       = (Returned, reading\<lparr>error := Some ''Please drop a valid PDF file''\<rparr>)
   \<and> error_shown (snd (handleDrop desktop [notes_txt, report_pdf] reading))
   \<and> currentPage (snd (handleDrop desktop [notes_txt, report_pdf] reading)) = 3
   \<and> totalPages (snd (handleDrop desktop [notes_txt, report_pdf] reading)) = 5
   \<and> pdfInstance (snd (handleDrop desktop [notes_txt, report_pdf] reading)) = Some report
   \<and> file_type report_pdf = ''application/pdf''
   \<and> handleDrop desktop [report_pdf] reading
       = loadPdf desktop (Some ''/docs/report.pdf'') (reading\<lparr>currentPage := 1\<rparr>)"
proof -
  have other_type: "file_type notes_txt \<noteq> ''application/pdf''"
    by (simp add: notes_txt_def)
  have pdf: "file_type report_pdf = ''application/pdf''"
    "file_path report_pdf = Some ''/docs/report.pdf''"
    by (simp_all add: report_pdf_def)
  have st: "reading\<lparr>isDragging := False\<rparr> = reading" "currentPage reading = 3"
    "totalPages reading = 5" "pdfInstance reading = Some report"
    by (simp_all add: reading_def)
  from drop_accepts_pdf_only [of notes_txt desktop "[report_pdf]" reading]
    drop_accepts_pdf_only [of report_pdf desktop "[]" reading] other_type pdf st
  show ?thesis by (simp add: error_shown_def)
qed

text \<open>
  The claim as it was stated fails for a file of another type that is not the first: the
  report and a text file are dropped together, the report is loaded, \<open>currentPage\<close> goes
  from 3 to 1, and no error is set for the text file.
\<close>

theorem second_file_not_rejected:
  "file_type notes_txt \<noteq> ''application/pdf''
   \<and> currentPage reading = 3
   \<and> fst (handleDrop desktop [report_pdf, notes_txt] reading) = Returned
   \<and> error (snd (handleDrop desktop [report_pdf, notes_txt] reading)) = None
   \<and> \<not> error_shown (snd (handleDrop desktop [report_pdf, notes_txt] reading))
   \<and> currentPage (snd (handleDrop desktop [report_pdf, notes_txt] reading)) = 1
   \<and> currentPage (snd (handleDrop desktop [report_pdf, notes_txt] reading))
       \<noteq> currentPage reading"
  by (simp add: handler_defs example_defs error_shown_def Let_def)







text \<open>
  Claim C9.  When \<^verbatim>\<open>openPdf()\<close> resolves to \<^verbatim>\<open>null\<close>, the open-file handler of the
  main page (which calls it under Electron, with the bridge present) returns the state it
  was given, the log of calls included: nothing is loaded or rendered.  The handler of
  \<^verbatim>\<open>App\<close> does the same.
\<close>

theorem cancel_leaves_state:
  "(isElectron e \<and> hasOpenPdf e \<and> openPdf e = Resolves None \<longrightarrow>
      handleOpenPdf e s = (Returned, s))
   \<and> (openPdf e = Resolves None \<longrightarrow> app_handleOpenPdf e import_ok a = (Returned, a))"
  by (simp add: handleOpenPdf_electron app_handleOpenPdf_def)

theorem cancel_leaves_state_witness:
  "isElectron dialog_cancelled \<and> hasOpenPdf dialog_cancelled
   \<and> openPdf dialog_cancelled = Resolves None
   \<and> handleOpenPdf dialog_cancelled reading = (Returned, reading)
   \<and> app_handleOpenPdf dialog_cancelled True report_app = (Returned, report_app)"
proof -
  have pre: "isElectron dialog_cancelled \<and> hasOpenPdf dialog_cancelled
      \<and> openPdf dialog_cancelled = Resolves None"
    by (simp add: dialog_cancelled_def desktop_def)
  from cancel_leaves_state [of dialog_cancelled reading True report_app] pre
  show ?thesis by simp
qed

text \<open>
  Claim C10.  A run of \<^verbatim>\<open>loadPdf\<close> that completes has returned (it never throws) with
  \<open>isLoading\<close> false, whatever failed inside.  A run of \<^verbatim>\<open>goToPage\<close> that completes
  has returned with \<open>isLoading\<close> false, when its guard admitted the call or the flag was
  false on entry; the guard's early return leaves the flag alone, and the flag is false on
  entry in every state reached from the initial one by operations that completed: after
  each of them \<open>isLoading\<close> is false.
\<close>

theorem loading_flag_cleared:
  "(fst (loadPdf e a s) \<noteq> Suspended \<longrightarrow>
      fst (loadPdf e a s) = Returned \<and> \<not> isLoading (snd (loadPdf e a s)))
   \<and> (fst (goToPage e n s) \<noteq> Suspended \<and> (goToPage_admits n s \<or> \<not> isLoading s) \<longrightarrow>
      fst (goToPage e n s) = Returned \<and> \<not> isLoading (snd (goToPage e n s)))
   \<and> (all_complete steps (initial_state c) \<longrightarrow> \<not> isLoading (run steps (initial_state c)))"
proof -
  have "\<not> isLoading (initial_state c)"
    by (simp add: initial_state_def)
  then have "all_complete steps (initial_state c) \<Longrightarrow> \<not> isLoading (run steps (initial_state c))"
    by (rule run_not_loading)
  then show ?thesis
    using loadPdf_complete [of e a s] goToPage_complete [of e n s] by blast
qed

theorem loading_flag_cleared_witness:
  "fst (loadPdf unreadable (Some ''/docs/report.pdf'') reading) \<noteq> Suspended
   \<and> \<not> isLoading (snd (loadPdf unreadable (Some ''/docs/report.pdf'') reading))
   \<and> fst (goToPage broken_pages 4 reading) \<noteq> Suspended
   \<and> goToPage_admits 4 reading
   \<and> \<not> isLoading (snd (goToPage broken_pages 4 reading))
   \<and> all_complete [(desktop, Open_file), (broken_pages, Go_to_page 2),
                    (desktop, Page_input (Some 9)), (unreadable, Drop_files [report_pdf])]
        (initial_state (Some []))
   \<and> \<not> isLoading
        (run [(desktop, Open_file), (broken_pages, Go_to_page 2),
              (desktop, Page_input (Some 9)), (unreadable, Drop_files [report_pdf])]
           (initial_state (Some [])))"
proof -
  have load: "fst (loadPdf unreadable (Some ''/docs/report.pdf'') reading) \<noteq> Suspended"
    by (simp add: handler_defs example_defs Let_def)
  have nav: "fst (goToPage broken_pages 4 reading) \<noteq> Suspended"
    by (simp add: handler_defs example_defs Let_def)
  have adm: "goToPage_admits 4 reading"
    by (simp add: goToPage_admits_def reading_def)
  have seq: "all_complete [(desktop, Open_file), (broken_pages, Go_to_page 2),
                    (desktop, Page_input (Some 9)), (unreadable, Drop_files [report_pdf])]
        (initial_state (Some []))"
    by (simp add: handler_defs example_defs Let_def)
  from load nav adm seq
    loading_flag_cleared [of unreadable "Some ''/docs/report.pdf''" reading 4
      "[(desktop, Open_file), (broken_pages, Go_to_page 2),
        (desktop, Page_input (Some 9)), (unreadable, Drop_files [report_pdf])]" "Some []"]
    loading_flag_cleared [of broken_pages "Some ''/docs/report.pdf''" reading 4
      "[(desktop, Open_file), (broken_pages, Go_to_page 2),
        (desktop, Page_input (Some 9)), (unreadable, Drop_files [report_pdf])]" "Some []"]
  show ?thesis by blast
qed

end
